theory Spec2Isabelle
  imports Complex_Main
begin

section \<open>Primer analysis and design engine\<close>

text \<open>
  The engine consists of the sequence property calculator \<open>calculatePrimerProps\<close>
  (the specification's \<open>computeProperties\<close>) and the primer pair designer
  \<open>designPrimers\<close>, together with the helpers \<open>cleanSequence\<close>,
  \<open>getComplement\<close> and \<open>reverseComplement\<close>.

  Numbers. The source computes with TypeScript's \<open>number\<close>. Positions, lengths,
  product sizes and the four size constraints are modelled as \<open>int\<close>; temperatures,
  percentages, weights and scores as \<open>real\<close>. Rounding, \<open>NaN\<close> and the infinities
  of double arithmetic are outside the model (the page feeds every editable constraint
  through \<open>safeNum\<close>, which replaces \<open>NaN\<close> by 0).

  Strings are lists of characters; the cleaning step keeps ASCII letters only, so
  nothing beyond ASCII reaches the calculations.
\<close>

subsection \<open>Data model\<close>

record PrimerResult =
  seq :: string
  cleanSeq :: string
  length_bp :: int
  gc :: real
  tmBasic :: real
  tmNN :: real
  molecularWeight :: real
  isValid :: bool
  error :: "string option"

datatype Strand = sense | antisense

record CandidatePrimer = PrimerResult +
  start :: int
  end_pos :: int
  strand :: Strand

record PrimerPair =
  pair_id :: string
  forward :: CandidatePrimer
  reverse :: CandidatePrimer
  productSize :: int
  tmDiff :: real
  score :: real

record DesignConfig =
  minProd :: int
  maxProd :: int
  minLen :: int
  maxLen :: int
  minTm :: real
  maxTm :: real
  optTm :: real

subsection \<open>Thermodynamic parameters\<close>

text \<open>The nearest-neighbour table, keyed by dinucleotide, with entries \<open>(dH, dS)\<close>.\<close>

definition NN_PARAMS :: "(string \<times> real \<times> real) list" where
  "NN_PARAMS =
    [(''AA'', (-7.9, -22.2)), (''TT'', (-7.9, -22.2)),
     (''AT'', (-7.2, -20.4)), (''TA'', (-7.2, -21.3)),
     (''CA'', (-8.5, -22.7)), (''TG'', (-8.5, -22.7)),
     (''GT'', (-8.4, -22.4)), (''AC'', (-8.4, -22.4)),
     (''CT'', (-7.8, -21.0)), (''AG'', (-7.8, -21.0)),
     (''GA'', (-8.2, -22.2)), (''TC'', (-8.2, -22.2)),
     (''CG'', (-10.6, -27.2)), (''GC'', (-9.8, -24.4)),
     (''GG'', (-8.0, -19.9)), (''CC'', (-8.0, -19.9))]"

definition NN_INIT_GC :: "real \<times> real" where
  "NN_INIT_GC = (0.1, -2.8)"

definition NN_INIT_AT :: "real \<times> real" where
  "NN_INIT_AT = (2.3, 4.1)"

definition DEFAULT_CONC_NA_MM :: real where
  "DEFAULT_CONC_NA_MM = 50"

subsection \<open>Sequence helpers\<close>

definition lowerLetters :: string where
  "lowerLetters = ''abcdefghijklmnopqrstuvwxyz''"

definition upperLetters :: string where
  "upperLetters = ''ABCDEFGHIJKLMNOPQRSTUVWXYZ''"

text \<open>The character class \<open>[a-zA-Z]\<close>.\<close>

definition isLetter :: "char \<Rightarrow> bool" where
  "isLetter ch = (ch \<in> set lowerLetters \<or> ch \<in> set upperLetters)"

definition toUpperCase :: "char \<Rightarrow> char" where
  "toUpperCase ch =
    (case map_of (zip lowerLetters upperLetters) ch of Some u \<Rightarrow> u | None \<Rightarrow> ch)"

text \<open>\<open>seq.replace(/[^a-zA-Z]/g, '').toUpperCase()\<close>\<close>

definition cleanSequence :: "string \<Rightarrow> string" where
  "cleanSequence s = map toUpperCase (filter isLetter s)"

text \<open>The lookup table of \<open>getComplement\<close>, with \<open>N\<close> for every base it does not list.\<close>

definition getComplement :: "char \<Rightarrow> char" where
  "getComplement base =
    (case map_of [(CHR ''A'', CHR ''T''), (CHR ''T'', CHR ''A''), (CHR ''G'', CHR ''C''),
                  (CHR ''C'', CHR ''G''), (CHR ''U'', CHR ''A''), (CHR ''N'', CHR ''N'')] base of
       Some b \<Rightarrow> b
     | None \<Rightarrow> CHR ''N'')"

definition reverseComplement :: "string \<Rightarrow> string" where
  "reverseComplement s = map getComplement (rev s)"

text \<open>
  \<open>String.prototype.substring\<close> on integer arguments: both indices are clamped to
  \<open>[0, length]\<close> and swapped when the first exceeds the second.
\<close>

definition substring :: "string \<Rightarrow> int \<Rightarrow> int \<Rightarrow> string" where
  "substring s a b =
    (let n = int (length s);
         a' = min (max a 0) n;
         b' = min (max b 0) n;
         lo = min a' b';
         hi = max a' b'
     in take (nat (hi - lo)) (drop (nat lo) s))"

definition endsWith :: "string \<Rightarrow> char \<Rightarrow> bool" where
  "endsWith s ch = (s \<noteq> [] \<and> last s = ch)"

subsection \<open>Sequence property calculator\<close>

definition isGC :: "char \<Rightarrow> bool" where
  "isGC ch = (ch = CHR ''G'' \<or> ch = CHR ''C'')"

text \<open>The initiation term added for a terminal base.\<close>

definition initTerm :: "char \<Rightarrow> real \<times> real" where
  "initTerm ch = (if isGC ch then NN_INIT_GC else NN_INIT_AT)"

text \<open>
  The loop over the dinucleotide windows \<open>cleanSeq.slice(i, i + 2)\<close> for
  \<open>i = 0, ..., length - 2\<close>, carrying the accumulators \<open>(dH, dS)\<close>; a window that
  the table does not hold adds nothing.
\<close>

fun nnLoop :: "string \<Rightarrow> real \<times> real \<Rightarrow> real \<times> real" where
  "nnLoop (x # y # rest) (dH, dS) =
     nnLoop (y # rest)
       (case map_of NN_PARAMS [x, y] of
          Some (h, s) \<Rightarrow> (dH + h, dS + s)
        | None \<Rightarrow> (dH, dS))"
| "nnLoop rest acc = acc"

definition countBase :: "char \<Rightarrow> string \<Rightarrow> nat" where
  "countBase ch s = length (filter (\<lambda>x. x = ch) s)"

definition notATGC :: "string \<Rightarrow> bool" where
  "notATGC s = (filter (\<lambda>ch. ch \<notin> set ''ATGC'') s \<noteq> [])"

text \<open>
  The calculator. \<open>Math.log(Ct / 4)\<close> is the real logarithm for a positive concentration;
  for \<open>primerConcNm = 0\<close> it is \<open>-Infinity\<close> and for a negative one \<open>NaN\<close>, which the
  reals do not hold: there the value of \<open>tmNN\<close> below is not the code's, and every
  statement about \<open>tmNN\<close> on a valid sequence is made for a positive concentration (the
  designer always passes 500).
\<close>

definition calculatePrimerProps :: "string \<Rightarrow> real \<Rightarrow> PrimerResult" where
  "calculatePrimerProps rawSeq primerConcNm =
    (let cs = cleanSequence rawSeq in
     if cs = [] then
       \<lparr> seq = rawSeq, cleanSeq = [], length_bp = 0, gc = 0, tmBasic = 0, tmNN = 0,
         molecularWeight = 0, isValid = False, error = None \<rparr>
     else if notATGC cs then
       \<lparr> seq = rawSeq, cleanSeq = cs, length_bp = int (length cs), gc = 0, tmBasic = 0,
         tmNN = 0, molecularWeight = 0, isValid = False, error = Some ''Contains non-ATGC'' \<rparr>
     else
       (let len = length cs;
            g = countBase CHR ''G'' cs;
            c = countBase CHR ''C'' cs;
            a = countBase CHR ''A'' cs;
            t = countBase CHR ''T'' cs;
            gcPercent = (real (g + c) / real len) * 100;
            mw = real a * 313.2 + real c * 289.2 + real g * 329.2 + real t * 304.2 - 61.96;
            tmB = (if len < 14 then real (a + t) * 2 + real (g + c) * 4
                   else 64.9 + 41 * (real (g + c) - 16.4) / real len);
            first = hd cs;
            lst = last cs;
            (dH0, dS0) = (0, 0);
            (dH1, dS1) = (dH0 + fst (initTerm first), dS0 + snd (initTerm first));
            (dH2, dS2) = (dH1 + fst (initTerm lst), dS1 + snd (initTerm lst));
            (dH, dS) = nnLoop cs (dH2, dS2);
            saltCorr = 16.6 * log 10 (DEFAULT_CONC_NA_MM / 1000);
            R = 1.987;
            Ct = primerConcNm * (1 / 10 ^ 9);
            term = R * ln (Ct / 4);
            tm = (dH * 1000) / (dS + term) - 273.15 + saltCorr
        in \<lparr> seq = rawSeq, cleanSeq = cs, length_bp = int len, gc = gcPercent, tmBasic = tmB,
             tmNN = tm, molecularWeight = mw, isValid = True, error = None \<rparr>))"

subsection \<open>Primer pair designer\<close>

text \<open>Decimal rendering of an integer, as a template literal prints it.\<close>

fun natToString :: "nat \<Rightarrow> string" where
  "natToString n =
     (if n < 10 then [''0123456789'' ! n]
      else natToString (n div 10) @ [''0123456789'' ! (n mod 10)])"

declare natToString.simps [simp del]

definition numToString :: "int \<Rightarrow> string" where
  "numToString i = (if i < 0 then CHR ''-'' # natToString (nat (- i)) else natToString (nat i))"

definition MAX_CANDIDATES :: nat where
  "MAX_CANDIDATES = 300"

definition mkCandidate :: "PrimerResult \<Rightarrow> int \<Rightarrow> int \<Rightarrow> Strand \<Rightarrow> CandidatePrimer" where
  "mkCandidate props s e st =
    \<lparr> seq = seq props, cleanSeq = cleanSeq props, length_bp = length_bp props, gc = gc props,
      tmBasic = tmBasic props, tmNN = tmNN props, molecularWeight = molecularWeight props,
      isValid = isValid props, error = error props,
      start = s, end_pos = e, strand = st \<rparr>"

text \<open>The loose scan's retention test: valid, and within the window widened by 5.\<close>

definition looseOk :: "DesignConfig \<Rightarrow> PrimerResult \<Rightarrow> bool" where
  "looseOk cfg props =
    (isValid props \<and> tmNN props \<ge> minTm cfg - 5 \<and> tmNN props \<le> maxTm cfg + 5)"

text \<open>
  The inner loop of the forward scan at start index \<open>i\<close>, over the remaining primer
  lengths; it is left (\<open>break\<close>) at the first length that runs past the template.
\<close>

fun forwardInner :: "string \<Rightarrow> DesignConfig \<Rightarrow> int \<Rightarrow> int list \<Rightarrow> CandidatePrimer list" where
  "forwardInner sq cfg i [] = []"
| "forwardInner sq cfg i (l # ls) =
     (if i + l > int (length sq) then []
      else
        (let sub = substring sq i (i + l);
             props = calculatePrimerProps sub 500
         in (if looseOk cfg props then [mkCandidate props i (i + l - 1) sense] else [])
            @ forwardInner sq cfg i ls))"

text \<open>\<open>for (let i = 0; i < len - config.minProd; i++)\<close>\<close>

definition forwardCandidates :: "string \<Rightarrow> DesignConfig \<Rightarrow> CandidatePrimer list" where
  "forwardCandidates sq cfg =
    concat (map (\<lambda>i. forwardInner sq cfg i [minLen cfg..maxLen cfg])
                [0..int (length sq) - minProd cfg - 1])"

text \<open>One pass of the reverse scan's inner loop; a length with \<open>i - l < 0\<close> is skipped.\<close>

definition reverseStep :: "string \<Rightarrow> DesignConfig \<Rightarrow> int \<Rightarrow> int \<Rightarrow> CandidatePrimer list" where
  "reverseStep sq cfg i l =
    (if i - l < 0 then []
     else
       (let st = i - l + 1;
            en = i;
            templateSegment = substring sq st (en + 1);
            primerSeq = reverseComplement templateSegment;
            props = calculatePrimerProps primerSeq 500
        in if looseOk cfg props then [mkCandidate props st en antisense] else []))"

text \<open>\<open>for (let i = config.minProd; i < len; i++)\<close>\<close>

definition reverseCandidates :: "string \<Rightarrow> DesignConfig \<Rightarrow> CandidatePrimer list" where
  "reverseCandidates sq cfg =
    concat (map (\<lambda>i. concat (map (reverseStep sq cfg i) [minLen cfg..maxLen cfg]))
                [minProd cfg..int (length sq) - 1])"

definition clampPenalty :: "CandidatePrimer \<Rightarrow> real" where
  "clampPenalty p = (if endsWith (seq p) CHR ''G'' \<or> endsWith (seq p) CHR ''C'' then 0 else 2)"

text \<open>The body of the pairing loop: the pair pushed for \<open>f\<close> and \<open>r\<close>, if any.\<close>

definition makePair :: "DesignConfig \<Rightarrow> CandidatePrimer \<Rightarrow> CandidatePrimer \<Rightarrow> PrimerPair list" where
  "makePair cfg f r =
    (if end_pos r \<le> start f then []
     else
       (let pSize = end_pos r - start f + 1 in
        if pSize < minProd cfg \<or> pSize > maxProd cfg then []
        else if tmNN f < minTm cfg \<or> tmNN f > maxTm cfg then []
        else if tmNN r < minTm cfg \<or> tmNN r > maxTm cfg then []
        else
          (let td = \<bar>tmNN f - tmNN r\<bar> in
           if td > 5 then []
           else
             (let tmPenalty = \<bar>tmNN f - optTm cfg\<bar> + \<bar>tmNN r - optTm cfg\<bar>;
                  diffPenalty = td * 2;
                  gcPenalty = (\<bar>gc f - 50\<bar> + \<bar>gc r - 50\<bar>) * 0.1;
                  fClamp = clampPenalty f;
                  rClamp = clampPenalty r;
                  sc = tmPenalty + diffPenalty + gcPenalty + fClamp + rClamp
              in [\<lparr> pair_id = numToString (start f) @ ''-'' @ numToString (end_pos r),
                     forward = f, reverse = r, productSize = pSize, tmDiff = td,
                     score = sc \<rparr>]))))"

definition pairUp :: "DesignConfig \<Rightarrow> CandidatePrimer list \<Rightarrow> CandidatePrimer list \<Rightarrow> PrimerPair list" where
  "pairUp cfg topFwd topRev = concat (map (\<lambda>f. concat (map (makePair cfg f) topRev)) topFwd)"

text \<open>
  The two candidate sorts and the final sort use comparators of the form
  \<open>key a - key b\<close>; the sort is stable, so each is the stable sort by that key.
\<close>

definition tmDistance :: "DesignConfig \<Rightarrow> CandidatePrimer \<Rightarrow> real" where
  "tmDistance cfg c = \<bar>tmNN c - optTm cfg\<bar>"

definition designPrimers :: "string \<Rightarrow> DesignConfig \<Rightarrow> PrimerPair list" where
  "designPrimers template cfg =
    (let sq = cleanSequence template;
         len = int (length sq)
     in if len < minProd cfg then []
        else
          (let forwardCs = sort_key (tmDistance cfg) (forwardCandidates sq cfg);
               reverseCs = sort_key (tmDistance cfg) (reverseCandidates sq cfg);
               topFwd = take MAX_CANDIDATES forwardCs;
               topRev = take MAX_CANDIDATES reverseCs;
               pairs = pairUp cfg topFwd topRev
           in take 20 (sort_key score pairs)))"

subsection \<open>The nearest-neighbour sums as the specification words them\<close>

text \<open>
  The terminal initiation penalty of a base: \<open>\<Delta>H = +0.1, \<Delta>S = -2.8\<close> if it is G or C,
  otherwise \<open>\<Delta>H = +2.3, \<Delta>S = +4.1\<close>.
\<close>

definition specInit :: "char \<Rightarrow> real \<times> real" where
  "specInit b = (if b = CHR ''G'' \<or> b = CHR ''C'' then (0.1, -2.8) else (2.3, 4.1))"

text \<open>
  The unified nearest-neighbour parameters of SantaLucia (1998), \<open>\<Delta>H\<close> in kcal/mol and
  \<open>\<Delta>S\<close> in cal/(mol K), for the sixteen dinucleotides read 5' to 3': AA/TT, AT/TA,
  TA/AT, CA/GT, GT/CA, CT/GA, GA/CT, CG/GC, GC/CG and GG/CC, each step listed under
  both of its strands.
\<close>

definition SANTALUCIA_1998 :: "((char \<times> char) \<times> real \<times> real) list" where
  "SANTALUCIA_1998 =
    [((CHR ''A'', CHR ''A''), (-7.9, -22.2)), ((CHR ''A'', CHR ''C''), (-8.4, -22.4)),
     ((CHR ''A'', CHR ''G''), (-7.8, -21.0)), ((CHR ''A'', CHR ''T''), (-7.2, -20.4)),
     ((CHR ''C'', CHR ''A''), (-8.5, -22.7)), ((CHR ''C'', CHR ''C''), (-8.0, -19.9)),
     ((CHR ''C'', CHR ''G''), (-10.6, -27.2)), ((CHR ''C'', CHR ''T''), (-7.8, -21.0)),
     ((CHR ''G'', CHR ''A''), (-8.2, -22.2)), ((CHR ''G'', CHR ''C''), (-9.8, -24.4)),
     ((CHR ''G'', CHR ''G''), (-8.0, -19.9)), ((CHR ''G'', CHR ''T''), (-8.4, -22.4)),
     ((CHR ''T'', CHR ''A''), (-7.2, -21.3)), ((CHR ''T'', CHR ''C''), (-8.2, -22.2)),
     ((CHR ''T'', CHR ''G''), (-8.5, -22.7)), ((CHR ''T'', CHR ''T''), (-7.9, -22.2))]"

text \<open>
  The parameters of one adjacent base pair; the sequences the sums are taken over hold
  A, T, G and C only, and a pair outside the table counts as nothing.
\<close>

definition specStack :: "char \<times> char \<Rightarrow> real \<times> real" where
  "specStack p = (case map_of SANTALUCIA_1998 p of Some v \<Rightarrow> v | None \<Rightarrow> (0, 0))"

text \<open>
  The penalty of the first base, the penalty of the last base, and the parameters summed
  over every adjacent base pair of the sequence.
\<close>

definition specDeltaH :: "string \<Rightarrow> real" where
  "specDeltaH s = fst (specInit (hd s)) + fst (specInit (last s))
                  + sum_list (map (fst \<circ> specStack) (zip s (tl s)))"

definition specDeltaS :: "string \<Rightarrow> real" where
  "specDeltaS s = snd (specInit (hd s)) + snd (specInit (last s))
                  + sum_list (map (snd \<circ> specStack) (zip s (tl s)))"

subsection \<open>A worked example\<close>

text \<open>
  The template \<open>GTNACNGT\<close> with primers of length 2: the letter N makes every window
  that holds it invalid, which leaves the forward primers GT (at 0) and AC (at 3) and the
  reverse primers GT (the reverse complement of AC at 3..4) and AC (of GT at 6..7). The
  temperature window is wide enough to hold the melting temperature of a 2-mer.
\<close>

definition demoConfig :: DesignConfig where
  "demoConfig = \<lparr> minProd = 4, maxProd = 8, minLen = 2, maxLen = 2,
                  minTm = - 400, maxTm = 100, optTm = 60 \<rparr>"

text \<open>The melting temperature the calculator gives the 2-mers AC and GT at 500 nM.\<close>

definition demoTm :: real where
  "demoTm = tmNN (calculatePrimerProps ''AC'' 500)"

text \<open>
  The same template with \<open>minProd = 5\<close>: the forward scan stops before index
  \<open>3 = length - minProd\<close>.
\<close>

definition edgeConfig :: DesignConfig where
  "edgeConfig = \<lparr> minProd = 5, maxProd = 8, minLen = 2, maxLen = 2,
                  minTm = - 400, maxTm = 100, optTm = 60 \<rparr>"

text \<open>A configuration with a negative primer length, run on the template \<open>NACNNGTN\<close>.\<close>

definition negLenConfig :: DesignConfig where
  "negLenConfig = \<lparr> minProd = 1, maxProd = 8, minLen = - 2, maxLen = - 2,
                    minTm = - 400, maxTm = 100, optTm = 60 \<rparr>"

subsection \<open>The forward scan as the specification words it\<close>

text \<open>
  The candidate for start index \<open>i\<close> and length \<open>l\<close>: the properties, at 500 nM, of the
  substring \<open>template[i .. i+l)\<close>, at positions \<open>i\<close> to \<open>i + l - 1\<close> on the sense strand.
\<close>

definition specForwardCandidate :: "string \<Rightarrow> int \<Rightarrow> int \<Rightarrow> CandidatePrimer" where
  "specForwardCandidate sq i l =
     mkCandidate (calculatePrimerProps (take (nat l) (drop (nat i) sq)) 500) i (i + l - 1) sense"

section \<open>Properties\<close>

lemmas clean_defs = cleanSequence_def isLetter_def toUpperCase_def lowerLetters_def upperLetters_def

lemmas props_defs = calculatePrimerProps_def clean_defs notATGC_def Let_def countBase_def
  initTerm_def isGC_def NN_INIT_GC_def NN_INIT_AT_def DEFAULT_CONC_NA_MM_def NN_PARAMS_def

lemma notATGC_iff: "notATGC s \<longleftrightarrow> \<not> set s \<subseteq> set ''ATGC''"
  unfolding notATGC_def filter_empty_conv by blast

lemma seq_calculatePrimerProps [simp]: "seq (calculatePrimerProps raw c) = raw"
  by (simp add: calculatePrimerProps_def Let_def case_prod_unfold)

subsection \<open>Reverse complement\<close>

lemma getComplement_twice:
  "b \<in> set ''ATGC'' \<Longrightarrow> getComplement (getComplement b) = b"
  by (auto simp: getComplement_def)

text \<open>
  C7. For every sequence over the alphabet A, T, G, C, reverse-complementing twice
  returns the original sequence exactly.
\<close>

theorem reverseComplement_twice:
  "set s \<subseteq> set ''ATGC'' \<Longrightarrow> reverseComplement (reverseComplement s) = s"
proof -
  assume a: "set s \<subseteq> set ''ATGC''"
  have "map (getComplement \<circ> getComplement) s = map id s"
    by (rule map_cong[OF refl]) (use a getComplement_twice in auto)
  then show ?thesis
    by (simp add: reverseComplement_def rev_map)
qed

theorem reverseComplement_twice_witness:
  "set ''GATTC'' \<subseteq> set ''ATGC'' \<and> reverseComplement ''GATTC'' = ''GAATC''
   \<and> reverseComplement (reverseComplement ''GATTC'') = ''GATTC''"
  using reverseComplement_twice [of "''GATTC''"]
  by (simp add: reverseComplement_def getComplement_def)

subsection \<open>Sequence property calculator\<close>

lemma stack_lookup:
  assumes "x \<in> set ''ATGC''" and "y \<in> set ''ATGC''"
  shows "map_of NN_PARAMS [x, y] = Some (specStack (x, y))"
  using assms
  by simp (elim disjE; hypsubst; simp add: NN_PARAMS_def specStack_def SANTALUCIA_1998_def)

lemma nnLoop_sum:
  "set s \<subseteq> set ''ATGC'' \<Longrightarrow>
   nnLoop s (h, e) =
     (h + sum_list (map (fst \<circ> specStack) (zip s (tl s))),
      e + sum_list (map (snd \<circ> specStack) (zip s (tl s))))"
proof (induction s "(h, e)" arbitrary: h e rule: nnLoop.induct)
  case (1 x y rest dH dS)
  from "1.prems" have xy: "x \<in> set ''ATGC''" "y \<in> set ''ATGC''"
    and r: "set (y # rest) \<subseteq> set ''ATGC''"
    by simp_all
  obtain a b where v: "specStack (x, y) = (a, b)" by (cases "specStack (x, y)")
  have lk: "map_of NN_PARAMS [x, y] = Some (a, b)"
    using stack_lookup[OF xy] v by simp
  have "nnLoop (y # rest) (dH + a, dS + b) =
     (dH + a + sum_list (map (fst \<circ> specStack) (zip (y # rest) (tl (y # rest)))),
      dS + b + sum_list (map (snd \<circ> specStack) (zip (y # rest) (tl (y # rest)))))"
    by (rule "1.hyps"[OF _ r]) (simp add: lk)
  then show ?case
    using lk v by simp
qed simp_all

lemma initTerm_spec: "initTerm b = specInit b"
  by (simp add: initTerm_def specInit_def isGC_def NN_INIT_GC_def NN_INIT_AT_def)

text \<open>
  C2. For every input whose cleaned form is non-empty and holds only A, T, G, C, and
  every primer concentration \<open>c\<close> (nanomolar, a positive quantity: the logarithm of the
  formula is defined for \<open>c > 0\<close> only), the nearest-neighbour melting temperature
  returned is \<open>(\<Delta>H \<times> 1000) / (\<Delta>S + 1.987 \<times> ln ((c \<times> 1e-9) / 4)) - 273.15 + 16.6 \<times> log10 0.05\<close>,
  where \<open>\<Delta>H\<close> and \<open>\<Delta>S\<close> are the initiation penalty of the first base, the penalty of
  the last base, and the SantaLucia 1998 parameters summed over every adjacent base pair.
\<close>

theorem tmNN_formula:
  assumes "cleanSequence raw \<noteq> []" and "set (cleanSequence raw) \<subseteq> set ''ATGC''"
    and "0 < c"
  shows "tmNN (calculatePrimerProps raw c) =
           (specDeltaH (cleanSequence raw) * 1000)
             / (specDeltaS (cleanSequence raw) + 1.987 * ln ((c * (1 / 10 ^ 9)) / 4))
           - 273.15 + 16.6 * log 10 0.05"
proof -
  have v: "\<not> notATGC (cleanSequence raw)"
    using assms(2) by (simp add: notATGC_iff)
  show ?thesis
    using assms(1) v
    by (simp add: calculatePrimerProps_def Let_def nnLoop_sum[OF assms(2)] initTerm_spec
        specDeltaH_def specDeltaS_def DEFAULT_CONC_NA_MM_def)
qed

theorem tmNN_formula_witness:
  "cleanSequence ''1 gaattc'' = ''GAATTC''
   \<and> cleanSequence ''1 gaattc'' \<noteq> [] \<and> set (cleanSequence ''1 gaattc'') \<subseteq> set ''ATGC''
   \<and> (0::real) < 500
   \<and> specDeltaH ''GAATTC'' = -39.2 \<and> specDeltaS ''GAATTC'' = -114.8
   \<and> tmNN (calculatePrimerProps ''1 gaattc'' 500) =
       (-39.2 * 1000) / (-114.8 + 1.987 * ln ((500 * (1 / 10 ^ 9)) / 4))
       - 273.15 + 16.6 * log 10 0.05"
proof -
  have c: "cleanSequence ''1 gaattc'' = ''GAATTC''" by (simp add: clean_defs)
  have h1: "cleanSequence ''1 gaattc'' \<noteq> []" by (simp add: c)
  have h2: "set (cleanSequence ''1 gaattc'') \<subseteq> set ''ATGC''" by (simp add: c)
  have h3: "(0::real) < 500" by simp
  have d: "specDeltaH ''GAATTC'' = -39.2 \<and> specDeltaS ''GAATTC'' = -114.8"
    by (simp add: specDeltaH_def specDeltaS_def specInit_def specStack_def SANTALUCIA_1998_def)
  show ?thesis using h1 h2 d tmNN_formula [OF h1 h2 h3] by (simp add: c)
qed

text \<open>
  C4, as the claim states it, fails: for an input with a character outside A, T, G, C the
  record's \<open>length\<close> is the length of the cleaned sequence, not zero.
\<close>

theorem invalid_record_counterexample:
  "notATGC (cleanSequence ''ATGX'') \<and> isValid (calculatePrimerProps ''ATGX'' 500) = False
   \<and> length_bp (calculatePrimerProps ''ATGX'' 500) = 4"
  by (simp add: calculatePrimerProps_def clean_defs notATGC_def Let_def)

text \<open>
  C4, amended. For every input whose cleaned form is empty or holds a character outside
  A, T, G, C, and every concentration, the record returned has \<open>isValid = false\<close>, its
  fields \<open>gcPercent\<close>, \<open>molecularWeight\<close>, \<open>tmBasic\<close> and \<open>tmNearestNeighbor\<close> are zero, and
  its \<open>length\<close> is the length of the cleaned sequence (zero when the cleaned form is
  empty). The function has no failing branch.
\<close>

theorem invalid_record:
  assumes "cleanSequence raw = [] \<or> \<not> set (cleanSequence raw) \<subseteq> set ''ATGC''"
  shows "isValid (calculatePrimerProps raw c) = False
       \<and> gc (calculatePrimerProps raw c) = 0
       \<and> molecularWeight (calculatePrimerProps raw c) = 0
       \<and> tmBasic (calculatePrimerProps raw c) = 0
       \<and> tmNN (calculatePrimerProps raw c) = 0
       \<and> length_bp (calculatePrimerProps raw c) = int (length (cleanSequence raw))"
  using assms by (auto simp: calculatePrimerProps_def Let_def notATGC_iff)

theorem invalid_record_witness:
  "(cleanSequence ''ATGX'' = [] \<or> \<not> set (cleanSequence ''ATGX'') \<subseteq> set ''ATGC'')
   \<and> isValid (calculatePrimerProps ''ATGX'' 500) = False
   \<and> gc (calculatePrimerProps ''ATGX'' 500) = 0
   \<and> molecularWeight (calculatePrimerProps ''ATGX'' 500) = 0
   \<and> tmBasic (calculatePrimerProps ''ATGX'' 500) = 0
   \<and> tmNN (calculatePrimerProps ''ATGX'' 500) = 0
   \<and> length_bp (calculatePrimerProps ''ATGX'' 500) = 4"
proof -
  have c: "cleanSequence ''ATGX'' = ''ATGX''" by (simp add: clean_defs)
  have h: "cleanSequence ''ATGX'' = [] \<or> \<not> set (cleanSequence ''ATGX'') \<subseteq> set ''ATGC''"
    by (simp add: c)
  show ?thesis using h invalid_record [OF h, of 500] by (simp add: c)
qed

text \<open>
  C8, as the claim states it, fails: the record echoes the raw input in its \<open>seq\<close> field,
  so two inputs that clean to the same sequence give records that differ there.
\<close>

theorem cleaning_invariance_counterexample:
  "cleanSequence ''agct'' = cleanSequence ''AGCT''
   \<and> calculatePrimerProps ''agct'' 500 \<noteq> calculatePrimerProps ''AGCT'' 500"
proof -
  have "seq (calculatePrimerProps ''agct'' 500) \<noteq> seq (calculatePrimerProps ''AGCT'' 500)"
    by (simp only: seq_calculatePrimerProps) simp
  then have "calculatePrimerProps ''agct'' 500 \<noteq> calculatePrimerProps ''AGCT'' 500"
    by metis
  then show ?thesis by (simp add: clean_defs)
qed

text \<open>
  C8, amended. For every two inputs that clean to the same sequence and every
  concentration, the two records agree in every field except \<open>seq\<close>, which holds the raw
  input: the record of the first input is the record of the second with \<open>seq\<close> replaced.
\<close>

theorem cleaning_invariance:
  assumes "cleanSequence a = cleanSequence b"
  shows "calculatePrimerProps a c = (calculatePrimerProps b c)\<lparr>seq := a\<rparr>"
  using assms by (simp add: calculatePrimerProps_def Let_def case_prod_unfold)

theorem cleaning_invariance_witness:
  "cleanSequence ''1 agct'' = cleanSequence ''AGCT''
   \<and> calculatePrimerProps ''1 agct'' 500 = (calculatePrimerProps ''AGCT'' 500)\<lparr>seq := ''1 agct''\<rparr>"
proof -
  have h: "cleanSequence ''1 agct'' = cleanSequence ''AGCT''" by (simp add: clean_defs)
  show ?thesis using h cleaning_invariance [OF h, of 500] by simp
qed

subsection \<open>Primer pair designer: templates too short\<close>

lemma pairUp_Nil [simp]: "pairUp cfg [] rs = []"
  by (simp add: pairUp_def)

lemma forwardCandidates_empty:
  "int (length sq) \<le> minProd cfg \<Longrightarrow> forwardCandidates sq cfg = []"
  by (simp add: forwardCandidates_def)

text \<open>
  C6. For every template whose cleaned length is strictly less than \<open>minProductSize\<close>, and
  every configuration of the remaining constraints, \<open>designPrimers\<close> returns the empty array.
\<close>

theorem short_template_empty:
  "int (length (cleanSequence template)) < minProd cfg \<Longrightarrow> designPrimers template cfg = []"
  by (simp add: designPrimers_def Let_def)

theorem short_template_empty_witness:
  "int (length (cleanSequence ''ATGCATGCAT'')) <
     minProd \<lparr> minProd = 100, maxProd = 1000, minLen = 18, maxLen = 24,
               minTm = 55, maxTm = 65, optTm = 60 \<rparr>
   \<and> designPrimers ''ATGCATGCAT''
       \<lparr> minProd = 100, maxProd = 1000, minLen = 18, maxLen = 24,
         minTm = 55, maxTm = 65, optTm = 60 \<rparr> = []"
proof -
  have h: "int (length (cleanSequence ''ATGCATGCAT'')) <
     minProd \<lparr> minProd = 100, maxProd = 1000, minLen = 18, maxLen = 24,
               minTm = 55, maxTm = 65, optTm = 60 \<rparr>"
    by (simp add: clean_defs)
  show ?thesis using h short_template_empty [OF h] by simp
qed

text \<open>
  C9. For every template whose cleaned length is exactly \<open>minProductSize\<close>, and every
  configuration of the remaining constraints, \<open>designPrimers\<close> returns the empty array: the
  forward scan has no start index to enumerate.
\<close>

theorem exact_template_empty:
  "int (length (cleanSequence template)) = minProd cfg \<Longrightarrow> designPrimers template cfg = []"
  by (simp add: designPrimers_def Let_def forwardCandidates_empty)

theorem exact_template_empty_witness:
  "int (length (cleanSequence ''ATGCATGCAT'')) =
     minProd \<lparr> minProd = 10, maxProd = 1000, minLen = 2, maxLen = 4,
               minTm = 55, maxTm = 65, optTm = 60 \<rparr>
   \<and> designPrimers ''ATGCATGCAT''
       \<lparr> minProd = 10, maxProd = 1000, minLen = 2, maxLen = 4,
         minTm = 55, maxTm = 65, optTm = 60 \<rparr> = []"
proof -
  have h: "int (length (cleanSequence ''ATGCATGCAT'')) =
     minProd \<lparr> minProd = 10, maxProd = 1000, minLen = 2, maxLen = 4,
               minTm = 55, maxTm = 65, optTm = 60 \<rparr>"
    by (simp add: clean_defs)
  show ?thesis using h exact_template_empty [OF h] by simp
qed

subsection \<open>The worked example, evaluated\<close>

text \<open>
  The logarithms of the melting-temperature formula are bounded only as far as the
  example needs: \<open>ln (Ct / 4)\<close> is negative at 500 nM, and \<open>log10 0.05\<close> lies
  between \<open>-2\<close> and \<open>0\<close>.
\<close>

lemma ln_term_neg: "ln ((500 * (1 / 10 ^ 9)) / 4 :: real) < 0"
  by (rule ln_less_zero) simp_all

lemma log_salt_bounds: "- 2 < log 10 (50 / 1000 :: real) \<and> log 10 (50 / 1000 :: real) < 0"
proof -
  have a: "log 10 (1 / 100 :: real) < log 10 (50 / 1000)"
    by (subst log_less_cancel_iff) simp_all
  have "log 10 (1 / 100 :: real) = - log 10 (10 ^ 2)"
    by (simp add: log_divide)
  also have "\<dots> = - 2"
    by (simp only: log_pow_cancel)
  finally have b: "log 10 (1 / 100 :: real) = - 2" .
  have c: "log 10 (50 / 1000 :: real) < 0"
    by (subst log_less_zero_cancel_iff) simp_all
  show ?thesis using a b c by simp
qed

lemma window_arith:
  fixes q lg :: real
  assumes "0 < q" and "q \<le> 300" and "- 2 < lg \<and> lg < 0"
  shows "- 400 \<le> q - 273.15 + 16.6 * lg \<and> q - 273.15 + 16.6 * lg \<le> 100"
  using assms by simp

lemma tm_window:
  fixes dH dS :: real
  assumes "dH < 0" and "dS < 0" and "dH * 1000 / dS \<le> 300"
  shows "- 400 \<le> dH * 1000 / (dS + 1.987 * ln ((500 * (1 / 10 ^ 9)) / 4)) - 273.15 + 16.6 * log 10 (50 / 1000)
       \<and> dH * 1000 / (dS + 1.987 * ln ((500 * (1 / 10 ^ 9)) / 4)) - 273.15 + 16.6 * log 10 (50 / 1000) \<le> 100"
proof -
  define D where "D = dS + 1.987 * ln ((500 * (1 / 10 ^ 9)) / 4 :: real)"
  have D: "D < dS" unfolding D_def using ln_term_neg by simp
  then have D0: "D < 0" using assms(2) by simp
  have q0: "0 < dH * 1000 / D"
    using assms(1) D0 by (simp add: divide_neg_neg)
  have "dH * 1000 / D \<le> dH * 1000 / dS"
    using assms(1,2) D D0 by (simp add: field_simps)
  then have q1: "dH * 1000 / D \<le> 300" using assms(3) by simp
  show ?thesis
    unfolding D_def[symmetric] by (rule window_arith[OF q0 q1 log_salt_bounds])
qed

lemma demoTm_window: "- 400 \<le> demoTm \<and> demoTm \<le> 100"
proof -
  have "demoTm = (- 6) * 1000 / (- 21.1 + 1.987 * ln ((500 * (1 / 10 ^ 9)) / 4)) - 273.15 + 16.6 * log 10 (50 / 1000)"
    by (simp add: demoTm_def props_defs)
  moreover have "- 400 \<le> (- 6) * 1000 / (- 21.1 + 1.987 * ln ((500 * (1 / 10 ^ 9)) / 4)) - 273.15 + 16.6 * log 10 (50 / 1000)
       \<and> (- 6) * 1000 / (- 21.1 + 1.987 * ln ((500 * (1 / 10 ^ 9)) / 4)) - 273.15 + 16.6 * log 10 (50 / 1000) \<le> (100::real)"
    by (rule tm_window) simp_all
  ultimately show ?thesis by simp
qed

lemma props_AC:
  "calculatePrimerProps ''AC'' 500 =
     \<lparr> seq = ''AC'', cleanSeq = ''AC'', length_bp = 2, gc = 50, tmBasic = 6, tmNN = demoTm,
       molecularWeight = 540.44, isValid = True, error = None \<rparr>"
  by (simp add: demoTm_def props_defs)

lemma props_GT:
  "calculatePrimerProps ''GT'' 500 =
     \<lparr> seq = ''GT'', cleanSeq = ''GT'', length_bp = 2, gc = 50, tmBasic = 6, tmNN = demoTm,
       molecularWeight = 571.44, isValid = True, error = None \<rparr>"
  by (simp add: demoTm_def props_defs)

lemma looseOk_notATGC:
  "notATGC (cleanSequence s) \<Longrightarrow> looseOk cfg (calculatePrimerProps s c) = False"
  by (simp add: looseOk_def calculatePrimerProps_def Let_def)

lemma looseOk_empty:
  "cleanSequence s = [] \<Longrightarrow> looseOk cfg (calculatePrimerProps s c) = False"
  by (simp add: looseOk_def calculatePrimerProps_def Let_def)

lemma looseOk_demo:
  "looseOk demoConfig (calculatePrimerProps ''AC'' 500)"
  "looseOk demoConfig (calculatePrimerProps ''GT'' 500)"
  using demoTm_window by (simp_all add: looseOk_def props_AC props_GT demoConfig_def)

lemma demo_forward:
  "forwardCandidates ''GTNACNGT'' demoConfig =
     [mkCandidate (calculatePrimerProps ''GT'' 500) 0 1 sense,
      mkCandidate (calculatePrimerProps ''AC'' 500) 3 4 sense]"
proof -
  have l: "minLen demoConfig = 2" "maxLen demoConfig = 2" "minProd demoConfig = 4"
    by (simp_all add: demoConfig_def)
  have i0: "forwardInner ''GTNACNGT'' demoConfig 0 [2] =
              [mkCandidate (calculatePrimerProps ''GT'' 500) 0 1 sense]"
    by (simp add: substring_def Let_def looseOk_demo)
  have i1: "forwardInner ''GTNACNGT'' demoConfig 1 [2] = []"
    by (simp add: substring_def Let_def) (simp add: looseOk_notATGC clean_defs notATGC_def)
  have i2: "forwardInner ''GTNACNGT'' demoConfig 2 [2] = []"
    by (simp add: substring_def Let_def) (simp add: looseOk_notATGC clean_defs notATGC_def)
  have i3: "forwardInner ''GTNACNGT'' demoConfig 3 [2] =
              [mkCandidate (calculatePrimerProps ''AC'' 500) 3 4 sense]"
    by (simp add: substring_def Let_def looseOk_demo)
  show ?thesis
    by (simp add: forwardCandidates_def l upto_rec1 i0 i1 i2 i3 del: forwardInner.simps)
qed

lemma demo_reverse:
  "reverseCandidates ''GTNACNGT'' demoConfig =
     [mkCandidate (calculatePrimerProps ''GT'' 500) 3 4 antisense,
      mkCandidate (calculatePrimerProps ''AC'' 500) 6 7 antisense]"
proof -
  have l: "minLen demoConfig = 2" "maxLen demoConfig = 2" "minProd demoConfig = 4"
    by (simp_all add: demoConfig_def)
  have i4: "reverseStep ''GTNACNGT'' demoConfig 4 2 =
              [mkCandidate (calculatePrimerProps ''GT'' 500) 3 4 antisense]"
    by (simp add: reverseStep_def substring_def Let_def reverseComplement_def
        getComplement_def looseOk_demo)
  have i5: "reverseStep ''GTNACNGT'' demoConfig 5 2 = []"
    by (simp add: reverseStep_def substring_def Let_def reverseComplement_def getComplement_def)
       (simp add: looseOk_notATGC clean_defs notATGC_def)
  have i6: "reverseStep ''GTNACNGT'' demoConfig 6 2 = []"
    by (simp add: reverseStep_def substring_def Let_def reverseComplement_def getComplement_def)
       (simp add: looseOk_notATGC clean_defs notATGC_def)
  have i7: "reverseStep ''GTNACNGT'' demoConfig 7 2 =
              [mkCandidate (calculatePrimerProps ''AC'' 500) 6 7 antisense]"
    by (simp add: reverseStep_def substring_def Let_def reverseComplement_def
        getComplement_def looseOk_demo)
  show ?thesis
    by (simp add: reverseCandidates_def l upto_rec1 i4 i5 i6 i7)
qed

lemma demo_sorted_forward:
  "sort_key (tmDistance demoConfig) (forwardCandidates ''GTNACNGT'' demoConfig) =
     [mkCandidate (calculatePrimerProps ''GT'' 500) 0 1 sense,
      mkCandidate (calculatePrimerProps ''AC'' 500) 3 4 sense]"
  by (simp add: demo_forward tmDistance_def mkCandidate_def props_AC props_GT)

lemma demo_sorted_reverse:
  "sort_key (tmDistance demoConfig) (reverseCandidates ''GTNACNGT'' demoConfig) =
     [mkCandidate (calculatePrimerProps ''GT'' 500) 3 4 antisense,
      mkCandidate (calculatePrimerProps ''AC'' 500) 6 7 antisense]"
  by (simp add: demo_reverse tmDistance_def mkCandidate_def props_AC props_GT)

lemma demo_clean: "cleanSequence ''GTNACNGT'' = ''GTNACNGT''"
  by (simp add: clean_defs)

lemma demo_run:
  "map (\<lambda>p. (pair_id p, seq (forward p), start (forward p), end_pos (forward p),
               seq (reverse p), start (reverse p), end_pos (reverse p), productSize p,
               tmDiff p, score p))
     (designPrimers ''GTNACNGT'' demoConfig) =
   [(''3-7'', ''AC'', 3, 4, ''AC'', 6, 7, 5, 0, 2 * \<bar>demoTm - 60\<bar>),
    (''0-7'', ''GT'', 0, 1, ''AC'', 6, 7, 8, 0, 2 * \<bar>demoTm - 60\<bar> + 2),
    (''0-4'', ''GT'', 0, 1, ''GT'', 3, 4, 5, 0, 2 * \<bar>demoTm - 60\<bar> + 4)]"
proof -
  have m: "minProd demoConfig = 4" by (simp add: demoConfig_def)
  have "designPrimers ''GTNACNGT'' demoConfig =
          take 20 (sort_key score
            (pairUp demoConfig
              [mkCandidate (calculatePrimerProps ''GT'' 500) 0 1 sense,
               mkCandidate (calculatePrimerProps ''AC'' 500) 3 4 sense]
              [mkCandidate (calculatePrimerProps ''GT'' 500) 3 4 antisense,
               mkCandidate (calculatePrimerProps ''AC'' 500) 6 7 antisense]))"
    by (simp add: designPrimers_def Let_def demo_clean m demo_sorted_forward
        demo_sorted_reverse MAX_CANDIDATES_def)
  then show ?thesis
    using demoTm_window
    by (simp add: pairUp_def makePair_def mkCandidate_def props_AC props_GT demoConfig_def
      Let_def clampPenalty_def endsWith_def numToString_def natToString.simps)
qed

lemma demo_length: "length (designPrimers ''GTNACNGT'' demoConfig) = 3"
  using arg_cong[OF demo_run, of length] by simp

lemma demo_hd:
  "hd (designPrimers ''GTNACNGT'' demoConfig) \<in> set (designPrimers ''GTNACNGT'' demoConfig)"
  using demo_length by (cases "designPrimers ''GTNACNGT'' demoConfig") simp_all

lemma demo_hd_fields:
  "start (forward (hd (designPrimers ''GTNACNGT'' demoConfig))) = 3
   \<and> end_pos (reverse (hd (designPrimers ''GTNACNGT'' demoConfig))) = 7
   \<and> productSize (hd (designPrimers ''GTNACNGT'' demoConfig)) = 5"
  using demo_run by (cases "designPrimers ''GTNACNGT'' demoConfig") simp_all

subsection \<open>Primer pair designer: the pairs returned\<close>

lemma set_take_sort_subset: "set (take n (sort_key f xs)) \<subseteq> set xs"
  using set_take_subset[of n "sort_key f xs"] by simp

lemma sorted_take_sort: "sorted (map f (take n (sort_key f xs)))"
proof -
  have "sorted (take n (map f (sort_key f xs)))"
    by (rule sorted_wrt_take) simp
  then show ?thesis by (simp add: take_map)
qed

lemma designPrimers_subset:
  "set (designPrimers template cfg) \<subseteq>
     set (pairUp cfg
       (take MAX_CANDIDATES (sort_key (tmDistance cfg) (forwardCandidates (cleanSequence template) cfg)))
       (take MAX_CANDIDATES (sort_key (tmDistance cfg) (reverseCandidates (cleanSequence template) cfg))))"
proof (cases "int (length (cleanSequence template)) < minProd cfg")
  case True
  then show ?thesis by (simp add: designPrimers_def Let_def)
next
  case False
  then show ?thesis
    by (simp add: designPrimers_def Let_def set_take_sort_subset)
qed

lemma designPrimers_member:
  assumes "p \<in> set (designPrimers template cfg)"
  shows "\<exists>f r. f \<in> set (forwardCandidates (cleanSequence template) cfg)
             \<and> r \<in> set (reverseCandidates (cleanSequence template) cfg)
             \<and> p \<in> set (makePair cfg f r)"
proof -
  from assms designPrimers_subset obtain f r where
    f: "f \<in> set (take MAX_CANDIDATES (sort_key (tmDistance cfg) (forwardCandidates (cleanSequence template) cfg)))"
    and r: "r \<in> set (take MAX_CANDIDATES (sort_key (tmDistance cfg) (reverseCandidates (cleanSequence template) cfg)))"
    and p: "p \<in> set (makePair cfg f r)"
    unfolding pairUp_def by fastforce
  from f have "f \<in> set (forwardCandidates (cleanSequence template) cfg)"
    by (metis in_set_takeD set_sort)
  moreover from r have "r \<in> set (reverseCandidates (cleanSequence template) cfg)"
    by (metis in_set_takeD set_sort)
  ultimately show ?thesis using p by blast
qed

lemma makePair_member:
  assumes "p \<in> set (makePair cfg f r)"
  shows "forward p = f \<and> reverse p = r
       \<and> start f < end_pos r
       \<and> productSize p = end_pos r - start f + 1
       \<and> minProd cfg \<le> productSize p \<and> productSize p \<le> maxProd cfg
       \<and> minTm cfg \<le> tmNN f \<and> tmNN f \<le> maxTm cfg
       \<and> minTm cfg \<le> tmNN r \<and> tmNN r \<le> maxTm cfg
       \<and> tmDiff p = \<bar>tmNN f - tmNN r\<bar> \<and> tmDiff p \<le> 5"
  using assms by (simp add: makePair_def Let_def split: if_splits)

text \<open>
  C1. For every template and every constraint configuration, every pair returned by
  \<open>designPrimers\<close> has \<open>reverse.end > forward.start\<close>, its \<open>productSize\<close> is
  \<open>reverse.end - forward.start + 1\<close> and lies within \<open>[minProductSize, maxProductSize]\<close>,
  both primers' nearest-neighbour melting temperatures lie within \<open>[minTm, maxTm]\<close>, and
  the two temperatures differ by at most 5.
\<close>

theorem pair_invariant:
  assumes "p \<in> set (designPrimers template cfg)"
  shows "end_pos (reverse p) > start (forward p)
       \<and> productSize p = end_pos (reverse p) - start (forward p) + 1
       \<and> minProd cfg \<le> productSize p \<and> productSize p \<le> maxProd cfg
       \<and> minTm cfg \<le> tmNN (forward p) \<and> tmNN (forward p) \<le> maxTm cfg
       \<and> minTm cfg \<le> tmNN (reverse p) \<and> tmNN (reverse p) \<le> maxTm cfg
       \<and> \<bar>tmNN (forward p) - tmNN (reverse p)\<bar> \<le> 5"
proof -
  from designPrimers_member[OF assms] obtain f r where "p \<in> set (makePair cfg f r)"
    by blast
  from makePair_member[OF this] show ?thesis by simp
qed

theorem pair_invariant_witness:
  "hd (designPrimers ''GTNACNGT'' demoConfig) \<in> set (designPrimers ''GTNACNGT'' demoConfig)
   \<and> start (forward (hd (designPrimers ''GTNACNGT'' demoConfig))) = 3
   \<and> end_pos (reverse (hd (designPrimers ''GTNACNGT'' demoConfig))) = 7
   \<and> productSize (hd (designPrimers ''GTNACNGT'' demoConfig)) = 5
   \<and> minProd demoConfig = 4 \<and> maxProd demoConfig = 8
   \<and> minTm demoConfig \<le> tmNN (forward (hd (designPrimers ''GTNACNGT'' demoConfig)))
   \<and> tmNN (forward (hd (designPrimers ''GTNACNGT'' demoConfig))) \<le> maxTm demoConfig
   \<and> minTm demoConfig \<le> tmNN (reverse (hd (designPrimers ''GTNACNGT'' demoConfig)))
   \<and> tmNN (reverse (hd (designPrimers ''GTNACNGT'' demoConfig))) \<le> maxTm demoConfig
   \<and> \<bar>tmNN (forward (hd (designPrimers ''GTNACNGT'' demoConfig)))
        - tmNN (reverse (hd (designPrimers ''GTNACNGT'' demoConfig)))\<bar> \<le> 5"
  using demo_hd pair_invariant [OF demo_hd] demo_hd_fields
  by (simp add: demoConfig_def)

text \<open>
  C3. For every template and every constraint configuration, the array returned by
  \<open>designPrimers\<close> is in ascending order of score (\<open>results[i].score \<le> results[i+1].score\<close>
  for every valid \<open>i\<close>) and holds at most 20 pairs.
\<close>

theorem ranked_output:
  "(\<forall>i. i + 1 < length (designPrimers template cfg) \<longrightarrow>
        score (designPrimers template cfg ! i) \<le> score (designPrimers template cfg ! (i + 1)))
   \<and> length (designPrimers template cfg) \<le> 20"
proof -
  have s: "sorted (map score (designPrimers template cfg))"
    by (simp add: designPrimers_def Let_def sorted_take_sort)
  have "\<And>i. i + 1 < length (designPrimers template cfg) \<Longrightarrow>
        score (designPrimers template cfg ! i) \<le> score (designPrimers template cfg ! (i + 1))"
  proof -
    fix i assume i: "i + 1 < length (designPrimers template cfg)"
    from s i have "map score (designPrimers template cfg) ! i
                 \<le> map score (designPrimers template cfg) ! (i + 1)"
      by (intro sorted_nth_mono) simp_all
    with i show "score (designPrimers template cfg ! i) \<le> score (designPrimers template cfg ! (i + 1))"
      by simp
  qed
  moreover have "length (designPrimers template cfg) \<le> 20"
    by (simp add: designPrimers_def Let_def)
  ultimately show ?thesis by blast
qed

theorem ranked_output_witness:
  "length (designPrimers ''GTNACNGT'' demoConfig) = 3
   \<and> score (designPrimers ''GTNACNGT'' demoConfig ! 0)
       \<le> score (designPrimers ''GTNACNGT'' demoConfig ! 1)
   \<and> score (designPrimers ''GTNACNGT'' demoConfig ! 1)
       \<le> score (designPrimers ''GTNACNGT'' demoConfig ! 2)
   \<and> length (designPrimers ''GTNACNGT'' demoConfig) \<le> 20"
proof -
  have a: "\<And>i. i + 1 < length (designPrimers ''GTNACNGT'' demoConfig) \<Longrightarrow>
        score (designPrimers ''GTNACNGT'' demoConfig ! i)
          \<le> score (designPrimers ''GTNACNGT'' demoConfig ! (i + 1))"
    using ranked_output [of "''GTNACNGT''" demoConfig] by blast
  show ?thesis
    using a[of 0] a[of 1] demo_length by (simp add: numeral_2_eq_2)
qed

subsection \<open>Candidates of the two scans\<close>

lemma upper_is_clean:
  assumes "ch \<in> set upperLetters"
  shows "isLetter ch \<and> toUpperCase ch = ch"
proof -
  have "isLetter ch" using assms by (simp add: isLetter_def)
  moreover have "toUpperCase ch = ch"
    using assms unfolding upperLetters_def
    by simp (elim disjE; hypsubst; simp add: toUpperCase_def lowerLetters_def upperLetters_def)
  ultimately show ?thesis by simp
qed

lemma toUpperCase_upper:
  assumes "isLetter ch"
  shows "toUpperCase ch \<in> set upperLetters"
proof -
  from assms consider "ch \<in> set lowerLetters" | "ch \<in> set upperLetters"
    by (auto simp: isLetter_def)
  then show ?thesis
  proof cases
    case 1
    then show ?thesis
      unfolding lowerLetters_def
      by simp (elim disjE; hypsubst; simp add: toUpperCase_def lowerLetters_def upperLetters_def)
  next
    case 2
    then show ?thesis using upper_is_clean by simp
  qed
qed


lemma cleanSequence_upper: "set (cleanSequence s) \<subseteq> set upperLetters"
  using toUpperCase_upper by (auto simp: cleanSequence_def)

lemma cleanSequence_id:
  "set s \<subseteq> set upperLetters \<Longrightarrow> cleanSequence s = s"
  unfolding cleanSequence_def
  by (induction s) (simp_all add: upper_is_clean)

lemma substring_segment:
  assumes "0 \<le> a" and "a \<le> b" and "b \<le> int (length s)"
  shows "substring s a b = take (nat (b - a)) (drop (nat a) s)"
    and "int (length (substring s a b)) = b - a"
proof -
  have m: "min (max a 0) (int (length s)) = a" "min (max b 0) (int (length s)) = b"
       "min a b = a" "max a b = b"
    using assms by simp_all
  show "substring s a b = take (nat (b - a)) (drop (nat a) s)"
    by (simp add: substring_def Let_def m)
  then show "int (length (substring s a b)) = b - a"
    using assms by simp
qed

lemma set_substring: "set (substring s a b) \<subseteq> set s"
  unfolding substring_def Let_def
  by (meson set_drop_subset set_take_subset subset_trans)

lemma getComplement_upper: "getComplement b \<in> set upperLetters"
  by (simp add: getComplement_def upperLetters_def)

lemma reverseComplement_upper: "set (reverseComplement s) \<subseteq> set upperLetters"
  using getComplement_upper by (auto simp: reverseComplement_def)

lemma length_reverseComplement [simp]: "length (reverseComplement s) = length s"
  by (simp add: reverseComplement_def)

lemma valid_props:
  assumes "isValid (calculatePrimerProps s c)"
  shows "cleanSeq (calculatePrimerProps s c) = cleanSequence s"
    and "length_bp (calculatePrimerProps s c) = int (length (cleanSequence s))"
    and "cleanSequence s \<noteq> []"
  using assms
  by (simp_all add: calculatePrimerProps_def Let_def case_prod_unfold split: if_splits)

lemma mkCandidate_fields [simp]:
  "seq (mkCandidate q s e st) = seq q"
  "cleanSeq (mkCandidate q s e st) = cleanSeq q"
  "length_bp (mkCandidate q s e st) = length_bp q"
  "tmNN (mkCandidate q s e st) = tmNN q"
  "isValid (mkCandidate q s e st) = isValid q"
  "start (mkCandidate q s e st) = s"
  "end_pos (mkCandidate q s e st) = e"
  "strand (mkCandidate q s e st) = st"
  by (simp_all add: mkCandidate_def)

lemma forwardInner_member:
  assumes "f \<in> set (forwardInner sq cfg i ls)"
  shows "\<exists>l. l \<in> set ls \<and> i + l \<le> int (length sq)
           \<and> looseOk cfg (calculatePrimerProps (substring sq i (i + l)) 500)
           \<and> f = mkCandidate (calculatePrimerProps (substring sq i (i + l)) 500) i (i + l - 1) sense"
  using assms
proof (induction ls)
  case Nil
  then show ?case by simp
next
  case (Cons a ls)
  show ?case
  proof (cases "f \<in> set (forwardInner sq cfg i ls)")
    case True
    from Cons.IH[OF True] show ?thesis by auto
  next
    case False
    with Cons.prems show ?thesis
      by (auto simp: Let_def split: if_splits)
  qed
qed

lemma forwardCandidates_member:
  assumes "f \<in> set (forwardCandidates sq cfg)"
  shows "\<exists>i l. 0 \<le> i \<and> i < int (length sq) - minProd cfg
           \<and> minLen cfg \<le> l \<and> l \<le> maxLen cfg \<and> i + l \<le> int (length sq)
           \<and> looseOk cfg (calculatePrimerProps (substring sq i (i + l)) 500)
           \<and> f = mkCandidate (calculatePrimerProps (substring sq i (i + l)) 500) i (i + l - 1) sense"
proof -
  from assms obtain i where i: "i \<in> set [0..int (length sq) - minProd cfg - 1]"
    and f: "f \<in> set (forwardInner sq cfg i [minLen cfg..maxLen cfg])"
    by (auto simp: forwardCandidates_def)
  from forwardInner_member[OF f] obtain l where
    "l \<in> set [minLen cfg..maxLen cfg]" "i + l \<le> int (length sq)"
    "looseOk cfg (calculatePrimerProps (substring sq i (i + l)) 500)"
    "f = mkCandidate (calculatePrimerProps (substring sq i (i + l)) 500) i (i + l - 1) sense"
    by blast
  with i show ?thesis by (intro exI[of _ i] exI[of _ l]) simp
qed

lemma reverseCandidates_member:
  assumes "r \<in> set (reverseCandidates sq cfg)"
  shows "\<exists>i l. minProd cfg \<le> i \<and> i < int (length sq)
           \<and> minLen cfg \<le> l \<and> l \<le> maxLen cfg \<and> 0 \<le> i - l
           \<and> looseOk cfg (calculatePrimerProps (reverseComplement (substring sq (i - l + 1) (i + 1))) 500)
           \<and> r = mkCandidate (calculatePrimerProps (reverseComplement (substring sq (i - l + 1) (i + 1))) 500)
                   (i - l + 1) i antisense"
proof -
  from assms obtain i l where i: "i \<in> set [minProd cfg..int (length sq) - 1]"
    and l: "l \<in> set [minLen cfg..maxLen cfg]"
    and r: "r \<in> set (reverseStep sq cfg i l)"
    by (auto simp: reverseCandidates_def)
  from r have "0 \<le> i - l
      \<and> looseOk cfg (calculatePrimerProps (reverseComplement (substring sq (i - l + 1) (i + 1))) 500)
      \<and> r = mkCandidate (calculatePrimerProps (reverseComplement (substring sq (i - l + 1) (i + 1))) 500)
                   (i - l + 1) i antisense"
    by (simp add: reverseStep_def Let_def split: if_splits)
  with i l show ?thesis by (intro exI[of _ i] exI[of _ l]) simp
qed

text \<open>A retained forward candidate of a cleaned template, with a non-negative length.\<close>

lemma forward_shape:
  assumes f: "f \<in> set (forwardCandidates (cleanSequence t) cfg)" and m: "0 \<le> minLen cfg"
  shows "strand f = sense
       \<and> end_pos f - start f + 1 = int (length (cleanSeq f))
       \<and> length_bp f = int (length (cleanSeq f))
       \<and> minLen cfg \<le> length_bp f \<and> length_bp f \<le> maxLen cfg"
proof -
  let ?sq = "cleanSequence t"
  from forwardCandidates_member[OF f] obtain i l where
    i: "0 \<le> i" and l: "minLen cfg \<le> l" "l \<le> maxLen cfg" and il: "i + l \<le> int (length ?sq)"
    and ok: "looseOk cfg (calculatePrimerProps (substring ?sq i (i + l)) 500)"
    and fe: "f = mkCandidate (calculatePrimerProps (substring ?sq i (i + l)) 500) i (i + l - 1) sense"
    by blast
  let ?sub = "substring ?sq i (i + l)"
  have l0: "0 \<le> l" using m l by simp
  have len: "int (length ?sub) = l"
    using substring_segment(2)[of i "i + l" ?sq] i l0 il by simp
  have "set ?sub \<subseteq> set upperLetters"
    using set_substring cleanSequence_upper by (meson subset_trans)
  then have cl: "cleanSequence ?sub = ?sub" by (rule cleanSequence_id)
  have v: "isValid (calculatePrimerProps ?sub 500)" using ok by (simp add: looseOk_def)
  have "cleanSeq f = ?sub" "length_bp f = l"
    using valid_props(1,2)[OF v] cl len by (simp_all add: fe)
  then show ?thesis using len l by (simp add: fe)
qed

lemma reverse_shape:
  assumes r: "r \<in> set (reverseCandidates (cleanSequence t) cfg)" and m: "0 \<le> minLen cfg"
  shows "strand r = antisense
       \<and> end_pos r - start r + 1 = int (length (cleanSeq r))
       \<and> length_bp r = int (length (cleanSeq r))
       \<and> minLen cfg \<le> length_bp r \<and> length_bp r \<le> maxLen cfg"
proof -
  let ?sq = "cleanSequence t"
  from reverseCandidates_member[OF r] obtain i l where
    i: "i < int (length ?sq)" and l: "minLen cfg \<le> l" "l \<le> maxLen cfg" and il: "0 \<le> i - l"
    and ok: "looseOk cfg (calculatePrimerProps (reverseComplement (substring ?sq (i - l + 1) (i + 1))) 500)"
    and re: "r = mkCandidate (calculatePrimerProps (reverseComplement (substring ?sq (i - l + 1) (i + 1))) 500)
                   (i - l + 1) i antisense"
    by blast
  let ?seg = "substring ?sq (i - l + 1) (i + 1)"
  let ?pr = "reverseComplement ?seg"
  have l0: "0 \<le> l" using m l by simp
  have len: "int (length ?seg) = l"
    using substring_segment(2)[of "i - l + 1" "i + 1" ?sq] i l0 il by simp
  have cl: "cleanSequence ?pr = ?pr"
    using reverseComplement_upper by (rule cleanSequence_id)
  have v: "isValid (calculatePrimerProps ?pr 500)" using ok by (simp add: looseOk_def)
  have "cleanSeq r = ?pr" "length_bp r = l"
    using valid_props(1,2)[OF v] cl len by (simp_all add: re)
  then show ?thesis using len l by (simp add: re)
qed

lemma looseOk_wide:
  assumes "minTm cfg = - 400" and "maxTm cfg = 100"
  shows "looseOk cfg (calculatePrimerProps ''AC'' 500)"
    and "looseOk cfg (calculatePrimerProps ''GT'' 500)"
  using demoTm_window assms by (simp_all add: looseOk_def props_AC props_GT)

subsection \<open>Primer pair designer: the primers of a pair\<close>

lemma neg_clean: "cleanSequence ''NACNNGTN'' = ''NACNNGTN''"
  by (simp add: clean_defs)

lemma neg_config:
  "minLen negLenConfig = - 2" "maxLen negLenConfig = - 2" "minProd negLenConfig = 1"
  "minTm negLenConfig = - 400" "maxTm negLenConfig = 100" "maxProd negLenConfig = 8"
  by (simp_all add: negLenConfig_def)

lemma neg_forward:
  "forwardCandidates ''NACNNGTN'' negLenConfig =
     [mkCandidate (calculatePrimerProps ''AC'' 500) 3 0 sense]"
proof -
  have i0: "forwardInner ''NACNNGTN'' negLenConfig 0 [- 2] = []"
    by (simp add: substring_def Let_def) (simp add: looseOk_empty clean_defs)
  have i1: "forwardInner ''NACNNGTN'' negLenConfig 1 [- 2] = []"
    by (simp add: substring_def Let_def) (simp add: looseOk_notATGC clean_defs notATGC_def)
  have i2: "forwardInner ''NACNNGTN'' negLenConfig 2 [- 2] = []"
    by (simp add: substring_def Let_def) (simp add: looseOk_notATGC clean_defs notATGC_def)
  have i3: "forwardInner ''NACNNGTN'' negLenConfig 3 [- 2] =
              [mkCandidate (calculatePrimerProps ''AC'' 500) 3 0 sense]"
    by (simp add: substring_def Let_def looseOk_wide[OF neg_config(4,5)])
  have i4: "forwardInner ''NACNNGTN'' negLenConfig 4 [- 2] = []"
    by (simp add: substring_def Let_def) (simp add: looseOk_notATGC clean_defs notATGC_def)
  have i5: "forwardInner ''NACNNGTN'' negLenConfig 5 [- 2] = []"
    by (simp add: substring_def Let_def) (simp add: looseOk_notATGC clean_defs notATGC_def)
  have i6: "forwardInner ''NACNNGTN'' negLenConfig 6 [- 2] = []"
    by (simp add: substring_def Let_def) (simp add: looseOk_notATGC clean_defs notATGC_def)
  have u: "[- 2..- 2 :: int] = [- 2]" by (simp add: upto_rec1)
  show ?thesis
    by (simp add: forwardCandidates_def neg_config u upto_rec1 i0 i1 i2 i3 i4 i5 i6
        del: forwardInner.simps)
qed

lemma neg_reverse:
  "reverseCandidates ''NACNNGTN'' negLenConfig =
     [mkCandidate (calculatePrimerProps ''AC'' 500) 7 4 antisense]"
proof -
  have i1: "reverseStep ''NACNNGTN'' negLenConfig 1 (- 2) = []"
    by (simp add: reverseStep_def substring_def Let_def reverseComplement_def getComplement_def)
       (simp add: looseOk_notATGC clean_defs notATGC_def)
  have i2: "reverseStep ''NACNNGTN'' negLenConfig 2 (- 2) = []"
    by (simp add: reverseStep_def substring_def Let_def reverseComplement_def getComplement_def)
       (simp add: looseOk_notATGC clean_defs notATGC_def)
  have i3: "reverseStep ''NACNNGTN'' negLenConfig 3 (- 2) = []"
    by (simp add: reverseStep_def substring_def Let_def reverseComplement_def getComplement_def)
       (simp add: looseOk_notATGC clean_defs notATGC_def)
  have i4: "reverseStep ''NACNNGTN'' negLenConfig 4 (- 2) =
              [mkCandidate (calculatePrimerProps ''AC'' 500) 7 4 antisense]"
    by (simp add: reverseStep_def substring_def Let_def reverseComplement_def
        getComplement_def looseOk_wide[OF neg_config(4,5)])
  have i5: "reverseStep ''NACNNGTN'' negLenConfig 5 (- 2) = []"
    by (simp add: reverseStep_def substring_def Let_def reverseComplement_def getComplement_def)
       (simp add: looseOk_notATGC clean_defs notATGC_def)
  have i6: "reverseStep ''NACNNGTN'' negLenConfig 6 (- 2) = []"
    by (simp add: reverseStep_def substring_def Let_def reverseComplement_def getComplement_def)
       (simp add: looseOk_notATGC clean_defs notATGC_def)
  have i7: "reverseStep ''NACNNGTN'' negLenConfig 7 (- 2) = []"
    by (simp add: reverseStep_def substring_def Let_def reverseComplement_def getComplement_def)
       (simp add: looseOk_empty clean_defs)
  have u: "[- 2..- 2 :: int] = [- 2]" by (simp add: upto_rec1)
  show ?thesis
    by (simp add: reverseCandidates_def neg_config u upto_rec1 i1 i2 i3 i4 i5 i6 i7)
qed

lemma neg_run:
  "map (\<lambda>p. (pair_id p, start (forward p), end_pos (forward p), cleanSeq (forward p),
               length_bp (forward p), start (reverse p), end_pos (reverse p),
               cleanSeq (reverse p), length_bp (reverse p), productSize p))
     (designPrimers ''NACNNGTN'' negLenConfig) =
   [(''3-4'', 3, 0, ''AC'', 2, 7, 4, ''AC'', 2, 2)]"
proof -
  have "designPrimers ''NACNNGTN'' negLenConfig =
          take 20 (sort_key score
            (pairUp negLenConfig
              [mkCandidate (calculatePrimerProps ''AC'' 500) 3 0 sense]
              [mkCandidate (calculatePrimerProps ''AC'' 500) 7 4 antisense]))"
    by (simp add: designPrimers_def Let_def neg_clean neg_config neg_forward neg_reverse
        MAX_CANDIDATES_def)
  then show ?thesis
    using demoTm_window
    by (simp add: pairUp_def makePair_def mkCandidate_def props_AC negLenConfig_def
      Let_def clampPenalty_def endsWith_def numToString_def natToString.simps)
qed

text \<open>
  C10, as the claim states it, fails: nothing keeps the primer lengths of the
  configuration positive, and for a negative length \<open>l\<close> the scan takes
  \<open>substring(i, i + l)\<close>, which swaps its arguments, as the primer, while it records
  \<open>end = i + l - 1\<close>. With \<open>minLen = maxLen = -2\<close> the template \<open>NACNNGTN\<close> gives a pair
  whose forward primer AC has \<open>start = 3\<close> and \<open>end = 0\<close>: \<open>end - start + 1 = -2\<close>, and its
  length 2 is outside \<open>[-2, -2]\<close>.
\<close>

theorem primer_shape_counterexample:
  "designPrimers ''NACNNGTN'' negLenConfig \<noteq> []
   \<and> start (forward (hd (designPrimers ''NACNNGTN'' negLenConfig))) = 3
   \<and> end_pos (forward (hd (designPrimers ''NACNNGTN'' negLenConfig))) = 0
   \<and> cleanSeq (forward (hd (designPrimers ''NACNNGTN'' negLenConfig))) = ''AC''
   \<and> length_bp (forward (hd (designPrimers ''NACNNGTN'' negLenConfig))) = 2
   \<and> minLen negLenConfig = - 2 \<and> maxLen negLenConfig = - 2"
  using neg_run by (cases "designPrimers ''NACNNGTN'' negLenConfig") (simp_all add: neg_config)

text \<open>
  C10, amended. When \<open>minPrimerLength \<ge> 0\<close>, for every pair returned by \<open>designPrimers\<close>
  the forward primer has strand \<open>sense\<close>, the reverse primer has strand \<open>antisense\<close>, each
  primer satisfies \<open>end - start + 1 =\<close> the length of its cleaned sequence, which is its
  \<open>length\<close> field, and each primer's length lies within
  \<open>[minPrimerLength, maxPrimerLength]\<close>.
\<close>

theorem primer_shape:
  assumes "p \<in> set (designPrimers template cfg)" and "0 \<le> minLen cfg"
  shows "strand (forward p) = sense \<and> strand (reverse p) = antisense
       \<and> end_pos (forward p) - start (forward p) + 1 = int (length (cleanSeq (forward p)))
       \<and> end_pos (reverse p) - start (reverse p) + 1 = int (length (cleanSeq (reverse p)))
       \<and> length_bp (forward p) = int (length (cleanSeq (forward p)))
       \<and> length_bp (reverse p) = int (length (cleanSeq (reverse p)))
       \<and> minLen cfg \<le> length_bp (forward p) \<and> length_bp (forward p) \<le> maxLen cfg
       \<and> minLen cfg \<le> length_bp (reverse p) \<and> length_bp (reverse p) \<le> maxLen cfg"
proof -
  from designPrimers_member[OF assms(1)] obtain f r where
    f: "f \<in> set (forwardCandidates (cleanSequence template) cfg)"
    and r: "r \<in> set (reverseCandidates (cleanSequence template) cfg)"
    and p: "p \<in> set (makePair cfg f r)"
    by blast
  from makePair_member[OF p] have e: "forward p = f" "reverse p = r" by simp_all
  show ?thesis
    using forward_shape[OF f assms(2)] reverse_shape[OF r assms(2)] by (simp add: e)
qed

theorem primer_shape_witness:
  "hd (designPrimers ''GTNACNGT'' demoConfig) \<in> set (designPrimers ''GTNACNGT'' demoConfig)
   \<and> 0 \<le> minLen demoConfig \<and> minLen demoConfig = 2 \<and> maxLen demoConfig = 2
   \<and> strand (forward (hd (designPrimers ''GTNACNGT'' demoConfig))) = sense
   \<and> strand (reverse (hd (designPrimers ''GTNACNGT'' demoConfig))) = antisense
   \<and> end_pos (forward (hd (designPrimers ''GTNACNGT'' demoConfig)))
       - start (forward (hd (designPrimers ''GTNACNGT'' demoConfig))) + 1 = 2
   \<and> end_pos (reverse (hd (designPrimers ''GTNACNGT'' demoConfig)))
       - start (reverse (hd (designPrimers ''GTNACNGT'' demoConfig))) + 1 = 2
   \<and> length (cleanSeq (forward (hd (designPrimers ''GTNACNGT'' demoConfig)))) = 2
   \<and> length (cleanSeq (reverse (hd (designPrimers ''GTNACNGT'' demoConfig)))) = 2
   \<and> length_bp (forward (hd (designPrimers ''GTNACNGT'' demoConfig))) = 2
   \<and> length_bp (reverse (hd (designPrimers ''GTNACNGT'' demoConfig))) = 2"
proof -
  have m: "0 \<le> minLen demoConfig" "minLen demoConfig = 2" "maxLen demoConfig = 2"
    by (simp_all add: demoConfig_def)
  show ?thesis
    using demo_hd m primer_shape [OF demo_hd m(1)] by simp
qed

subsection \<open>Primer pair designer: the forward scan\<close>

lemma forwardInner_retains:
  assumes "sorted ls" and "l \<in> set ls" and "i + l \<le> int (length sq)"
    and "looseOk cfg (calculatePrimerProps (substring sq i (i + l)) 500)"
  shows "mkCandidate (calculatePrimerProps (substring sq i (i + l)) 500) i (i + l - 1) sense
           \<in> set (forwardInner sq cfg i ls)"
  using assms(1,2)
proof (induction ls)
  case Nil
  then show ?case by simp
next
  case (Cons a ls)
  from Cons.prems have "a \<le> l" by auto
  with assms(3) have a: "\<not> i + a > int (length sq)" by simp
  show ?case
  proof (cases "l = a")
    case True
    then show ?thesis using a assms(4) by (simp add: Let_def)
  next
    case False
    with Cons.prems have "l \<in> set ls" "sorted ls" by simp_all
    from Cons.IH[OF this(2,1)] show ?thesis using a by (simp add: Let_def)
  qed
qed

text \<open>
  C5, as the claim states it (start indices from 0 to \<open>length - minProductSize\<close>
  inclusive), fails: the loop runs while \<open>i < length - minProductSize\<close>. On the template
  \<open>GTNACNGT\<close> with \<open>minProd = 5\<close> the substring AC at index \<open>3 = length - minProd\<close> is
  valid and within the widened window, and is not among the forward candidates.
\<close>

theorem forward_scan_counterexample:
  "cleanSequence ''GTNACNGT'' = ''GTNACNGT''
   \<and> (0::int) \<le> 3 \<and> 3 \<le> int (length ''GTNACNGT'') - minProd edgeConfig
   \<and> minLen edgeConfig \<le> 2 \<and> 2 \<le> maxLen edgeConfig \<and> 3 + 2 \<le> int (length ''GTNACNGT'')
   \<and> take (nat 2) (drop (nat 3) ''GTNACNGT'') = ''AC''
   \<and> isValid (calculatePrimerProps ''AC'' 500)
   \<and> minTm edgeConfig - 5 \<le> tmNN (calculatePrimerProps ''AC'' 500)
   \<and> tmNN (calculatePrimerProps ''AC'' 500) \<le> maxTm edgeConfig + 5
   \<and> forwardCandidates ''GTNACNGT'' edgeConfig
        = [mkCandidate (calculatePrimerProps ''GT'' 500) 0 1 sense]
   \<and> specForwardCandidate ''GTNACNGT'' 3 2 \<notin> set (forwardCandidates ''GTNACNGT'' edgeConfig)"
proof -
  have c: "minLen edgeConfig = 2" "maxLen edgeConfig = 2" "minProd edgeConfig = 5"
    "minTm edgeConfig = - 400" "maxTm edgeConfig = 100"
    by (simp_all add: edgeConfig_def)
  have i0: "forwardInner ''GTNACNGT'' edgeConfig 0 [2] =
              [mkCandidate (calculatePrimerProps ''GT'' 500) 0 1 sense]"
    by (simp add: substring_def Let_def looseOk_wide[OF c(4,5)])
  have i1: "forwardInner ''GTNACNGT'' edgeConfig 1 [2] = []"
    by (simp add: substring_def Let_def) (simp add: looseOk_notATGC clean_defs notATGC_def)
  have i2: "forwardInner ''GTNACNGT'' edgeConfig 2 [2] = []"
    by (simp add: substring_def Let_def) (simp add: looseOk_notATGC clean_defs notATGC_def)
  have f: "forwardCandidates ''GTNACNGT'' edgeConfig
        = [mkCandidate (calculatePrimerProps ''GT'' 500) 0 1 sense]"
    by (simp add: forwardCandidates_def c upto_rec1 i0 i1 i2 del: forwardInner.simps)
  have "start (specForwardCandidate ''GTNACNGT'' 3 2)
          \<noteq> start (mkCandidate (calculatePrimerProps ''GT'' 500) 0 1 sense)"
    by (simp add: specForwardCandidate_def)
  then have n: "specForwardCandidate ''GTNACNGT'' 3 2 \<notin> set (forwardCandidates ''GTNACNGT'' edgeConfig)"
    unfolding f by auto
  have v: "isValid (calculatePrimerProps ''AC'' 500)
     \<and> minTm edgeConfig - 5 \<le> tmNN (calculatePrimerProps ''AC'' 500)
     \<and> tmNN (calculatePrimerProps ''AC'' 500) \<le> maxTm edgeConfig + 5"
    using looseOk_wide(1)[OF c(4,5)] by (simp add: looseOk_def)
  show ?thesis
    using f n v by (simp add: demo_clean c)
qed

text \<open>
  C5, amended. For every start index \<open>i\<close> with \<open>0 \<le> i < length - minProductSize\<close> and
  every primer length \<open>l\<close> in \<open>[minPrimerLength, maxPrimerLength]\<close> with \<open>i + l \<le> length\<close>
  (\<open>length\<close> being the cleaned template's), the candidate for the substring starting at
  \<open>i\<close> of length \<open>l\<close> is among the forward candidates exactly when it is valid and its
  nearest-neighbour melting temperature lies within \<open>[minTm - 5, maxTm + 5]\<close>.
\<close>

theorem forward_scan:
  assumes "0 \<le> i" and "i < int (length (cleanSequence template)) - minProd cfg"
    and "minLen cfg \<le> l" and "l \<le> maxLen cfg"
    and "i + l \<le> int (length (cleanSequence template))"
  shows "specForwardCandidate (cleanSequence template) i l
           \<in> set (forwardCandidates (cleanSequence template) cfg)
         \<longleftrightarrow>
         isValid (calculatePrimerProps (take (nat l) (drop (nat i) (cleanSequence template))) 500)
         \<and> minTm cfg - 5 \<le> tmNN (calculatePrimerProps (take (nat l) (drop (nat i) (cleanSequence template))) 500)
         \<and> tmNN (calculatePrimerProps (take (nat l) (drop (nat i) (cleanSequence template))) 500) \<le> maxTm cfg + 5"
    (is "?lhs \<longleftrightarrow> ?rhs")
proof
  let ?sq = "cleanSequence template"
  let ?sub = "take (nat l) (drop (nat i) ?sq)"
  assume ?lhs
  from forwardCandidates_member[OF this] obtain i' l' where
    ok: "looseOk cfg (calculatePrimerProps (substring ?sq i' (i' + l')) 500)"
    and e: "specForwardCandidate ?sq i l =
              mkCandidate (calculatePrimerProps (substring ?sq i' (i' + l')) 500) i' (i' + l' - 1) sense"
    by blast
  from arg_cong[OF e, of isValid] arg_cong[OF e, of tmNN]
  have "isValid (calculatePrimerProps ?sub 500)
          = isValid (calculatePrimerProps (substring ?sq i' (i' + l')) 500)"
    and "tmNN (calculatePrimerProps ?sub 500)
          = tmNN (calculatePrimerProps (substring ?sq i' (i' + l')) 500)"
    by (simp_all add: specForwardCandidate_def)
  with ok show ?rhs by (simp add: looseOk_def)
next
  let ?sq = "cleanSequence template"
  let ?sub = "take (nat l) (drop (nat i) ?sq)"
  assume r: ?rhs
  then have "cleanSequence ?sub \<noteq> []" using valid_props(3) by blast
  then have "?sub \<noteq> []" by (auto simp: cleanSequence_def)
  then have l0: "0 \<le> l" by (cases "0 \<le> l") simp_all
  have s: "substring ?sq i (i + l) = ?sub"
    using substring_segment(1)[of i "i + l" ?sq] assms(1,5) l0 by simp
  have ok: "looseOk cfg (calculatePrimerProps (substring ?sq i (i + l)) 500)"
    using r by (simp add: s looseOk_def)
  have il: "l \<in> set [minLen cfg..maxLen cfg]" using assms(3,4) by simp
  have "mkCandidate (calculatePrimerProps (substring ?sq i (i + l)) 500) i (i + l - 1) sense
          \<in> set (forwardInner ?sq cfg i [minLen cfg..maxLen cfg])"
    by (rule forwardInner_retains[OF _ il assms(5) ok]) simp
  moreover have "i \<in> set [0..int (length ?sq) - minProd cfg - 1]"
    using assms(1,2) by simp
  ultimately show ?lhs
    unfolding specForwardCandidate_def forwardCandidates_def s[symmetric] by auto
qed

theorem forward_scan_witness:
  "(0::int) \<le> 3 \<and> 3 < int (length (cleanSequence ''GTNACNGT'')) - minProd demoConfig
   \<and> minLen demoConfig \<le> 2 \<and> 2 \<le> maxLen demoConfig
   \<and> 3 + 2 \<le> int (length (cleanSequence ''GTNACNGT''))
   \<and> take (nat 2) (drop (nat 3) (cleanSequence ''GTNACNGT'')) = ''AC''
   \<and> isValid (calculatePrimerProps ''AC'' 500)
   \<and> minTm demoConfig - 5 \<le> tmNN (calculatePrimerProps ''AC'' 500)
   \<and> tmNN (calculatePrimerProps ''AC'' 500) \<le> maxTm demoConfig + 5
   \<and> specForwardCandidate (cleanSequence ''GTNACNGT'') 3 2
        \<in> set (forwardCandidates (cleanSequence ''GTNACNGT'') demoConfig)"
proof -
  have h: "(0::int) \<le> 3" "3 < int (length (cleanSequence ''GTNACNGT'')) - minProd demoConfig"
    "minLen demoConfig \<le> 2" "2 \<le> maxLen demoConfig"
    "3 + 2 \<le> int (length (cleanSequence ''GTNACNGT''))"
    by (simp_all add: demo_clean demoConfig_def)
  have s: "take (nat 2) (drop (nat 3) (cleanSequence ''GTNACNGT'')) = ''AC''"
    by (simp add: demo_clean)
  have v: "isValid (calculatePrimerProps ''AC'' 500)
     \<and> minTm demoConfig - 5 \<le> tmNN (calculatePrimerProps ''AC'' 500)
     \<and> tmNN (calculatePrimerProps ''AC'' 500) \<le> maxTm demoConfig + 5"
    using looseOk_demo(1) by (simp add: looseOk_def)
  show ?thesis
    using h s v forward_scan [OF h] by simp
qed

end
